theory Spec2Isabelle
  imports Complex_Main "HOL-Library.Sublist"
begin

section \<open>Vectors\<close>

text \<open>
  The scripts compute with \<^verbatim>\<open>mathutils.Vector\<close> values of three coordinates. The
  coordinates are modelled as real numbers: sums, differences and products are exact, and
  the rounding of the host's floating-point numbers is outside the model.
\<close>

type_synonym vec3 = "real \<times> real \<times> real"

fun vadd :: "vec3 \<Rightarrow> vec3 \<Rightarrow> vec3" where
  "vadd (a, b, c) (x, y, z) = (a + x, b + y, c + z)"

fun vsub :: "vec3 \<Rightarrow> vec3 \<Rightarrow> vec3" where
  "vsub (a, b, c) (x, y, z) = (a - x, b - y, c - z)"

fun vmul :: "vec3 \<Rightarrow> real \<Rightarrow> vec3" where
  "vmul (a, b, c) k = (a * k, b * k, c * k)"

fun vlength :: "vec3 \<Rightarrow> real" where
  "vlength (a, b, c) = sqrt (a * a + b * b + c * c)"

text \<open>
  \<^verbatim>\<open>Vector.normalize()\<close> divides by the length; the host leaves a vector of length
  zero at zero instead of dividing.
\<close>

definition normalize :: "vec3 \<Rightarrow> vec3" where
  "normalize v = (if vlength v = 0 then (0, 0, 0) else vmul v (1 / vlength v))"

section \<open>The host's scene\<close>

text \<open>
  Both scripts act on the data of the host application. The part of it they read or
  write is modelled as a record: \<^verbatim>\<open>bpy.data.objects\<close>, \<^verbatim>\<open>bpy.data.meshes\<close> and
  \<^verbatim>\<open>bpy.data.materials\<close> are lists, and a reference to an object or a mesh is its
  position in the list (the lists only grow, at the end, so a position keeps naming the
  same datablock). The host keeps \<^verbatim>\<open>bpy.data.objects\<close> ordered by name; the model
  keeps the order of creation, and every loop of the scripts over the objects treats each
  object on its own.
\<close>

datatype error = KeyError | IndexError | AttributeError | TypeError | ReferenceError | RuntimeError

type_synonym material = string

type_synonym uv = "real \<times> real"

record polygon =
  p_vertices :: "nat list"
  material_index :: nat

record mesh =
  vertices :: "vec3 list"
  polygons :: "polygon list"
  uv_layers_active :: "uv list option"
  mesh_materials :: "material option list"

record object =
  name :: string
  location :: vec3
  matrix_world :: "vec3 \<Rightarrow> vec3"
  select_get :: bool
  data :: nat
  active_material_index :: nat

record scene =
  objects :: "object list"
  active :: "nat option"
  meshes :: "mesh list"
  materials :: "material list"

text \<open>
  An operator of the host whose effect no statement below depends on
  (\<^verbatim>\<open>bpy.ops.rigidbody.*\<close>, \<^verbatim>\<open>bpy.ops.object.material_slot_remove\<close>) is a parameter of
  the procedure that calls it: any function from the scene to a new scene or an error.
\<close>

type_synonym operator = "scene \<Rightarrow> error + scene"

subsection \<open>Selection and translation\<close>

definition select_set :: "nat \<Rightarrow> bool \<Rightarrow> scene \<Rightarrow> scene" where
  "select_set i b s = s\<lparr>objects := (objects s)[i := (objects s ! i)\<lparr>select_get := b\<rparr>]\<rparr>"

text \<open>\<^verbatim>\<open>bpy.ops.object.select_all(action='DESELECT')\<close>\<close>

definition select_all_DESELECT :: "scene \<Rightarrow> scene" where
  "select_all_DESELECT s = s\<lparr>objects := map (\<lambda>ob. ob\<lparr>select_get := False\<rparr>) (objects s)\<rparr>"

text \<open>
  \<^verbatim>\<open>bpy.ops.transform.translate(value=v)\<close> adds \<open>v\<close> to the location of every selected
  object (and to the world position of each of its points).
\<close>

definition translate_object :: "vec3 \<Rightarrow> object \<Rightarrow> object" where
  "translate_object v ob =
     ob\<lparr>location := vadd (location ob) v, matrix_world := (\<lambda>p. vadd (matrix_world ob p) v)\<rparr>"

definition translate :: "vec3 \<Rightarrow> scene \<Rightarrow> scene" where
  "translate v s =
     s\<lparr>objects := map (\<lambda>ob. if select_get ob then translate_object v ob else ob) (objects s)\<rparr>"

section \<open>crowdControl.py\<close>

text \<open>\<^verbatim>\<open>str.startswith\<close>: \<open>startswith s r\<close> is \<^verbatim>\<open>s.startswith(r)\<close>.\<close>

fun startswith :: "string \<Rightarrow> string \<Rightarrow> bool" where
  "startswith s [] = True"
| "startswith [] (c # r) = False"
| "startswith (x # s) (c # r) = (x = c \<and> startswith s r)"

definition getObjList :: "string \<Rightarrow> scene \<Rightarrow> nat list" where
  "getObjList nameRoot s =
     filter (\<lambda>i. startswith (name (objects s ! i)) nameRoot) [0..<length (objects s)]"

definition select :: "string \<Rightarrow> scene \<Rightarrow> scene" where
  "select nameRoot s = fold (\<lambda>i. select_set i True) (getObjList nameRoot s) s"


definition move :: "string \<Rightarrow> vec3 \<Rightarrow> scene \<Rightarrow> scene" where
  "move nameRoot vector s = translate vector (select nameRoot (select_all_DESELECT s))"




text \<open>
  The loop of \<^verbatim>\<open>enable_rigidbody\<close> and \<^verbatim>\<open>disable_rigidbody\<close>: make each object the
  active one and run the operator. An operator that fails raises, and the procedure stops
  there. A reference to an object that the operator has removed from the scene is stale.
\<close>

fun for_each_active :: "operator \<Rightarrow> nat list \<Rightarrow> scene \<Rightarrow> error + scene" where
  "for_each_active opr [] s = Inr s"
| "for_each_active opr (i # is) s =
     (if i < length (objects s) then
        (case opr (s\<lparr>active := Some i\<rparr>) of
           Inl e \<Rightarrow> Inl e
         | Inr s' \<Rightarrow> for_each_active opr is s')
      else Inl ReferenceError)"

definition enable_rigidbody :: "(string \<Rightarrow> operator) \<Rightarrow> string \<Rightarrow> string \<Rightarrow> scene \<Rightarrow> error + scene" where
  "enable_rigidbody object_add nameRoot type s =
     (case for_each_active (object_add type) (getObjList nameRoot s) s of
        Inl e \<Rightarrow> Inl e
      | Inr s' \<Rightarrow> Inr (s'\<lparr>active := None\<rparr>))"

definition disable_rigidbody :: "operator \<Rightarrow> string \<Rightarrow> scene \<Rightarrow> error + scene" where
  "disable_rigidbody object_remove nameRoot s =
     (case for_each_active object_remove (getObjList nameRoot s) s of
        Inl e \<Rightarrow> Inl e
      | Inr s' \<Rightarrow> Inr (s'\<lparr>active := None\<rparr>))"


text \<open>\<^verbatim>\<open>bpy.data.objects[n]\<close>: the object of that name, KeyError when there is none.\<close>

definition objects_by_name :: "string \<Rightarrow> scene \<Rightarrow> error + nat" where
  "objects_by_name n s =
     (case filter (\<lambda>i. name (objects s ! i) = n) [0..<length (objects s)] of
        [] \<Rightarrow> Inl KeyError
      | i # _ \<Rightarrow> Inr i)"


text \<open>
  The material slots of an object are the materials of its mesh.
\<close>

definition material_slots :: "nat \<Rightarrow> scene \<Rightarrow> error + material option list" where
  "material_slots i s =
     (if i < length (objects s) \<and> data (objects s ! i) < length (meshes s)
      then Inr (mesh_materials (meshes s ! data (objects s ! i)))
      else Inl ReferenceError)"

text \<open>\<^verbatim>\<open>o.data.materials.append(m)\<close>\<close>

definition materials_append :: "nat \<Rightarrow> material option \<Rightarrow> scene \<Rightarrow> error + scene" where
  "materials_append i m s =
     (if i < length (objects s) \<and> data (objects s ! i) < length (meshes s)
      then (let d = data (objects s ! i); me = meshes s ! d
            in Inr (s\<lparr>meshes := (meshes s)[d := me\<lparr>mesh_materials := mesh_materials me @ [m]\<rparr>]\<rparr>))
      else Inl ReferenceError)"

text \<open>
  The inner loop of \<^verbatim>\<open>assign_material\<close>. It counts \<open>totalSlots\<close> down and, each time,
  sets the active material index of \<open>co\<close> to 0 and runs
  \<^verbatim>\<open>bpy.ops.object.material_slot_remove()\<close>.
\<close>

fun remove_slots :: "operator \<Rightarrow> nat \<Rightarrow> nat \<Rightarrow> scene \<Rightarrow> error + scene" where
  "remove_slots material_slot_remove co 0 s = Inr s"
| "remove_slots material_slot_remove co (Suc totalSlots) s =
     (if co < length (objects s) then
        (case material_slot_remove
                (s\<lparr>objects := (objects s)[co := (objects s ! co)\<lparr>active_material_index := 0\<rparr>]\<rparr>) of
           Inl e \<Rightarrow> Inl e
         | Inr s' \<Rightarrow> remove_slots material_slot_remove co totalSlots s')
      else Inl ReferenceError)"

text \<open>
  The outer loop. \<open>co\<close> is \<^verbatim>\<open>bpy.context.object\<close> as it was read once before the loop:
  the object that was active when the procedure was called, or nothing, and then
  \<^verbatim>\<open>co.material_slots\<close> raises AttributeError.
\<close>

fun assign_material_loop ::
    "operator \<Rightarrow> material option \<Rightarrow> nat option \<Rightarrow> nat list \<Rightarrow> scene \<Rightarrow> error + scene" where
  "assign_material_loop material_slot_remove m co [] s = Inr s"
| "assign_material_loop material_slot_remove m co (i # is) s =
     (if i < length (objects s) then
        (let s1 = s\<lparr>active := Some i\<rparr>
         in case co of
              None \<Rightarrow> Inl AttributeError
            | Some c \<Rightarrow>
                (case material_slots c s1 of
                   Inl e \<Rightarrow> Inl e
                 | Inr slots \<Rightarrow>
                     (case remove_slots material_slot_remove c (length slots) s1 of
                        Inl e \<Rightarrow> Inl e
                      | Inr s2 \<Rightarrow>
                          (case materials_append i m s2 of
                             Inl e \<Rightarrow> Inl e
                           | Inr s3 \<Rightarrow> assign_material_loop material_slot_remove m co is s3))))
      else Inl ReferenceError)"

text \<open>\<^verbatim>\<open>bpy.data.materials.get(material)\<close>: the material of that name, or None.\<close>

definition materials_get :: "string \<Rightarrow> scene \<Rightarrow> material option" where
  "materials_get material s = (if material \<in> set (materials s) then Some material else None)"

definition assign_material :: "operator \<Rightarrow> string \<Rightarrow> string \<Rightarrow> scene \<Rightarrow> error + scene" where
  "assign_material material_slot_remove nameRoot material s =
     (case assign_material_loop material_slot_remove (materials_get material s) (active s)
             (getObjList nameRoot s) s of
        Inl e \<Rightarrow> Inl e
      | Inr s' \<Rightarrow> Inr (s'\<lparr>active := None\<rparr>))"


section \<open>shedScaleSkin.py\<close>

text \<open>
  The script runs once, on the object named by its first constant. It starts with
  \<^verbatim>\<open>bpy.ops.object.mode_set(mode='OBJECT')\<close>; the editing mode of the host is not part
  of the model.
\<close>

definition originalObjectName :: string where
  "originalObjectName = ''Cube''"

definition SCALE_THICKNESS :: real where
  "SCALE_THICKNESS = 5 / 100"

definition DISPLACEMENT_DISTANCE :: real where
  "DISPLACEMENT_DISTANCE = 1"

subsection \<open>The editable copy of the source mesh\<close>

text \<open>
  A face of \<open>oBM\<close>, as the script reads it: the coordinates of its vertices
  (\<^verbatim>\<open>v.co for v in face.verts\<close>), its material index, and the indices of its loops
  (\<^verbatim>\<open>loop.index for loop in face.loops\<close>). \<^verbatim>\<open>from_mesh\<close> numbers the loops face after
  face, as the mesh stores them; a mesh of the host names only vertices it has.
\<close>

record face =
  f_verts :: "vec3 list"
  f_material_index :: nat
  f_loops :: "nat list"

fun from_mesh_faces :: "vec3 list \<Rightarrow> nat \<Rightarrow> polygon list \<Rightarrow> face list" where
  "from_mesh_faces vs k [] = []"
| "from_mesh_faces vs k (p # ps) =
     \<lparr>f_verts = map (\<lambda>i. vs ! i) (p_vertices p), f_material_index = material_index p,
      f_loops = [k..<k + length (p_vertices p)]\<rparr>
     # from_mesh_faces vs (k + length (p_vertices p)) ps"

definition from_mesh :: "mesh \<Rightarrow> face list" where
  "from_mesh me = from_mesh_faces (vertices me) 0 (polygons me)"

text \<open>\<^verbatim>\<open>bmesh.ops.transform(oBM, matrix=m, verts=oBM.verts)\<close>\<close>

definition bmesh_transform :: "(vec3 \<Rightarrow> vec3) \<Rightarrow> face list \<Rightarrow> face list" where
  "bmesh_transform m fs = map (\<lambda>f. f\<lparr>f_verts := map m (f_verts f)\<rparr>) fs"

subsection \<open>The editable mesh of one scale\<close>

text \<open>
  \<open>sBM\<close>: its vertices, and its faces, each the list of the vertices its loops run
  through. A UV layer holds one pair of coordinates for each loop of each face.
\<close>

record bmesh =
  bm_verts :: "vec3 list"
  bm_faces :: "nat list list"

text \<open>
  \<^verbatim>\<open>sBM.faces.new(sBM.verts)\<close>: one face through all the vertices, which the call returns.
  The host refuses a face of fewer than three vertices.
\<close>

definition faces_new :: "bmesh \<Rightarrow> error + bmesh \<times> nat list" where
  "faces_new bm =
     (if length (bm_verts bm) < 3 then Inl TypeError
      else Inr (bm\<lparr>bm_faces := bm_faces bm @ [[0..<length (bm_verts bm)]]\<rparr>,
                [0..<length (bm_verts bm)]))"

text \<open>
  \<^verbatim>\<open>bmesh.ops.extrude_face_region(sBM, geom=[scale])\<close> on the mesh of that one face of
  \<open>n\<close> vertices: the face stays, each vertex gets a copy at the same place, the copies
  carry a new face, and each edge of the face and its copy carry a new face of four loops.
  The result names the new vertices. The order of the new faces, and of the loops in each,
  is the host's; nothing below depends on it.
\<close>

definition extrude_face_region :: "bmesh \<Rightarrow> bmesh \<times> nat list" where
  "extrude_face_region bm =
     (let n = length (bm_verts bm)
      in (\<lparr>bm_verts = bm_verts bm @ bm_verts bm,
           bm_faces = bm_faces bm @ [[n..<2 * n]] @
             map (\<lambda>i. [i, (i + 1) mod n, n + (i + 1) mod n, n + i]) [0..<n]\<rparr>,
          [n..<2 * n]))"

text \<open>\<^verbatim>\<open>bmesh.ops.translate(sBM, vec=v, verts=vs)\<close>\<close>

definition bmesh_translate :: "vec3 \<Rightarrow> nat list \<Rightarrow> bmesh \<Rightarrow> bmesh" where
  "bmesh_translate v vs bm =
     bm\<lparr>bm_verts :=
          map (\<lambda>i. if i \<in> set vs then vadd (bm_verts bm ! i) v else bm_verts bm ! i)
            [0..<length (bm_verts bm)]\<rparr>"

text \<open>The median of a list of points: their mean, and zero when there is none.\<close>

definition vsum :: "vec3 list \<Rightarrow> vec3" where
  "vsum vs = foldr vadd vs (0, 0, 0)"

definition center_median :: "vec3 list \<Rightarrow> vec3" where
  "center_median vs = (if vs = [] then (0, 0, 0) else vmul (vsum vs) (1 / real (length vs)))"

text \<open>\<^verbatim>\<open>f.calc_center_median()\<close> for a face \<open>f\<close> of \<open>sBM\<close>.\<close>

definition calc_center_median :: "bmesh \<Rightarrow> nat list \<Rightarrow> vec3" where
  "calc_center_median bm f = center_median (map (\<lambda>i. bm_verts bm ! i) f)"

text \<open>\<^verbatim>\<open>sBM.loops.layers.uv.new()\<close>: a new layer, zero at every loop.\<close>

definition uv_new :: "bmesh \<Rightarrow> uv list list" where
  "uv_new bm = map (\<lambda>f. replicate (length f) (0, 0)) (bm_faces bm)"

text \<open>
  The inner loop of the UV copy:
  \<^verbatim>\<open>for sFace in sBM.faces: sFace.loops[k][uvLayer].uv = faceUV\<close>.
  A face with no loop \<open>k\<close> raises IndexError.
\<close>

fun set_loop_uv :: "nat \<Rightarrow> uv \<Rightarrow> uv list list \<Rightarrow> error + uv list list" where
  "set_loop_uv k faceUV [] = Inr []"
| "set_loop_uv k faceUV (sFace # rest) =
     (if k < length sFace then
        (case set_loop_uv k faceUV rest of
           Inl e \<Rightarrow> Inl e
         | Inr rest' \<Rightarrow> Inr (sFace[k := faceUV] # rest'))
      else Inl IndexError)"

text \<open>
  The outer loop, over the loops of the source face. \<open>uvs\<close> is
  \<^verbatim>\<open>oM.uv_layers.active\<close>, None for a mesh without a UV layer, and then
  \<^verbatim>\<open>.data\<close> raises AttributeError.
\<close>

fun copy_uvs :: "uv list option \<Rightarrow> nat list \<Rightarrow> uv list list \<Rightarrow> error + uv list list" where
  "copy_uvs uvs [] uvLayer = Inr uvLayer"
| "copy_uvs uvs (loopIndex # loops) uvLayer =
     (case uvs of
        None \<Rightarrow> Inl AttributeError
      | Some d \<Rightarrow>
          (if loopIndex < length d then
             (case set_loop_uv (loopIndex mod 4) (d ! loopIndex) uvLayer of
                Inl e \<Rightarrow> Inl e
              | Inr uvLayer' \<Rightarrow> copy_uvs uvs loops uvLayer')
           else Inl IndexError))"

text \<open>\<^verbatim>\<open>sBM.to_mesh(sM)\<close>\<close>

definition to_mesh :: "bmesh \<Rightarrow> uv list list \<Rightarrow> mesh" where
  "to_mesh bm uvLayer =
     \<lparr>vertices = bm_verts bm,
      polygons = map (\<lambda>f. \<lparr>p_vertices = f, material_index = 0\<rparr>) (bm_faces bm),
      uv_layers_active = Some (concat uvLayer),
      mesh_materials = []\<rparr>"

text \<open>\<^verbatim>\<open>str(n)\<close> for a natural number.\<close>

fun str :: "nat \<Rightarrow> string" where
  "str n = (if n < 10 then [''0123456789'' ! n] else str (n div 10) @ [''0123456789'' ! (n mod 10)])"

subsection \<open>Operators on the scene\<close>

text \<open>
  \<^verbatim>\<open>bpy.data.objects.new(name, mesh)\<close>: a new object at the origin, not selected. The
  host appends a number to a name that is taken; the model keeps the name asked for.
\<close>

definition objects_new :: "string \<Rightarrow> nat \<Rightarrow> object" where
  "objects_new n me =
     \<lparr>name = n, location = (0, 0, 0), matrix_world = (\<lambda>p. p), select_get = False, data = me,
      active_material_index = 0\<rparr>"

text \<open>
  \<^verbatim>\<open>bpy.ops.object.origin_set(type='ORIGIN_GEOMETRY')\<close>: the origin of every selected
  object moves to the median of the vertices of its mesh. The vertices are rewritten
  relative to the new origin, so no point of the object moves in the world.
\<close>

definition origin_set_object :: "nat \<Rightarrow> scene \<Rightarrow> scene" where
  "origin_set_object i s =
     (let ob = objects s ! i; d = data ob
      in if d < length (meshes s) then
           (let me = meshes s ! d; c = center_median (vertices me)
            in s\<lparr>objects := (objects s)[i := ob\<lparr>location := matrix_world ob c,
                                              matrix_world := (\<lambda>p. matrix_world ob (vadd p c))\<rparr>],
                 meshes := (meshes s)[d := me\<lparr>vertices := map (\<lambda>v. vsub v c) (vertices me)\<rparr>]\<rparr>)
         else s)"

definition origin_set :: "scene \<Rightarrow> scene" where
  "origin_set s =
     fold origin_set_object (filter (\<lambda>i. select_get (objects s ! i)) [0..<length (objects s)]) s"

subsection \<open>The script\<close>

text \<open>
  The first half of the body of the loop: the prism of one face. It returns \<open>sBM\<close> and
  the unit vector \<open>vecOtoS\<close>.
\<close>

definition scale_bmesh :: "vec3 \<Rightarrow> face \<Rightarrow> error + bmesh \<times> vec3" where
  "scale_bmesh oLoc face =
     (case faces_new \<lparr>bm_verts = f_verts face, bm_faces = []\<rparr> of
        Inl e \<Rightarrow> Inl e
      | Inr (sBM0, scale) \<Rightarrow>
          (let (sBM1, extrusionVerts) = extrude_face_region sBM0;
               vecOtoS = normalize (vsub (calc_center_median sBM1 scale) oLoc)
           in Inr (bmesh_translate (vmul vecOtoS SCALE_THICKNESS) extrusionVerts sBM1, vecOtoS)))"

text \<open>
  The second half, from \<^verbatim>\<open>sName = ...\<close> on: the new mesh and the new object, which is
  selected alone, centred, moved away and given the material.
\<close>

definition add_scale :: "bmesh \<Rightarrow> uv list list \<Rightarrow> vec3 \<Rightarrow> nat \<Rightarrow> face \<Rightarrow> scene \<Rightarrow> error + scene" where
  "add_scale sBM uvLayer vecOtoS faceNum face s =
     (let sName = ''scale'' @ originalObjectName @ str faceNum;
          sM = length (meshes s);
          s1 = s\<lparr>meshes := meshes s @ [to_mesh sBM uvLayer]\<rparr>;
          sO = length (objects s1);
          s2 = s1\<lparr>objects := objects s1 @ [objects_new sName sM]\<rparr>;
          s3 = select_set sO True (select_all_DESELECT s2);
          s4 = translate (vmul vecOtoS DISPLACEMENT_DISTANCE) (origin_set s3)
      in if f_material_index face < length (materials s4)
         then materials_append sO (Some (materials s4 ! f_material_index face)) s4
         else Inl IndexError)"

text \<open>The body of the loop. \<open>oM\<close> is the source mesh, read where the scene holds it.\<close>

definition scale_of_face :: "nat \<Rightarrow> vec3 \<Rightarrow> nat \<Rightarrow> face \<Rightarrow> scene \<Rightarrow> error + scene" where
  "scale_of_face oM oLoc faceNum face s =
     (case scale_bmesh oLoc face of
        Inl e \<Rightarrow> Inl e
      | Inr (sBM, vecOtoS) \<Rightarrow>
          (case copy_uvs (uv_layers_active (meshes s ! oM)) (f_loops face) (uv_new sBM) of
             Inl e \<Rightarrow> Inl e
           | Inr uvLayer \<Rightarrow> add_scale sBM uvLayer vecOtoS faceNum face s))"

fun scale_loop :: "nat \<Rightarrow> vec3 \<Rightarrow> nat \<Rightarrow> face list \<Rightarrow> scene \<Rightarrow> error + scene" where
  "scale_loop oM oLoc faceNum [] s = Inr s"
| "scale_loop oM oLoc faceNum (face # rest) s =
     (case scale_of_face oM oLoc faceNum face s of
        Inl e \<Rightarrow> Inl e
      | Inr s' \<Rightarrow> scale_loop oM oLoc (faceNum + 1) rest s')"

text \<open>
  The whole script. An exception ends it; the model then returns the exception.
\<close>

definition shedScaleSkin :: "scene \<Rightarrow> error + scene" where
  "shedScaleSkin s =
     (let s0 = select_all_DESELECT s
      in case objects_by_name originalObjectName s0 of
           Inl e \<Rightarrow> Inl e
         | Inr ob \<Rightarrow>
             (let s1 = select_set ob True s0; oM = data (objects s1 ! ob)
              in if oM < length (meshes s1) then
                   (let oBM = bmesh_transform (matrix_world (objects s1 ! ob)) (from_mesh (meshes s1 ! oM));
                        oLoc = location (objects s1 ! ob)
                    in case scale_loop oM oLoc 0 oBM s1 of
                         Inl e \<Rightarrow> Inl e
                       | Inr s2 \<Rightarrow> Inr (select_all_DESELECT s2))
                 else Inl ReferenceError))"

section \<open>Notions of the specification\<close>

text \<open>The Euclidean distance between two points.\<close>

definition distance :: "vec3 \<Rightarrow> vec3 \<Rightarrow> real" where
  "distance a b = vlength (vsub a b)"


text \<open>
  The direction in which the script moves the scale of a face: the unit vector from the
  origin of the source object to the median of the face.
\<close>

definition scale_direction :: "vec3 \<Rightarrow> face \<Rightarrow> vec3" where
  "scale_direction oLoc f = normalize (vsub (center_median (f_verts f)) oLoc)"

text \<open>The vertices of the prism of a face: the face, and the face pushed out by the thickness.\<close>

definition prism_verts :: "vec3 \<Rightarrow> face \<Rightarrow> vec3 list" where
  "prism_verts oLoc f =
     f_verts f @ map (\<lambda>v. vadd v (vmul (scale_direction oLoc f) SCALE_THICKNESS)) (f_verts f)"

text \<open>
  Where the scale of a face ends up: at the median of its prism, moved by the displacement
  distance in the direction of the scale.
\<close>

definition scale_location :: "vec3 \<Rightarrow> face \<Rightarrow> vec3" where
  "scale_location oLoc f =
     vadd (center_median (prism_verts oLoc f)) (vmul (scale_direction oLoc f) DISPLACEMENT_DISTANCE)"

text \<open>
  The scale of a face, as the script leaves it: named after the number of the face,
  lying at \<open>scale_location\<close>, with a mesh of its own.
\<close>

definition scale_object :: "vec3 \<Rightarrow> nat \<Rightarrow> face \<Rightarrow> nat \<Rightarrow> object" where
  "scale_object oLoc faceNum f me =
     \<lparr>name = ''scale'' @ originalObjectName @ str faceNum,
      location = scale_location oLoc f,
      matrix_world =
        (\<lambda>p. vadd (vadd p (center_median (prism_verts oLoc f)))
                (vmul (scale_direction oLoc f) DISPLACEMENT_DISTANCE)),
      select_get = False, data = me, active_material_index = 0\<rparr>"

text \<open>
  What the body of the loop needs of a face to run through: three vertices or more, UV data
  for each of its loops, a loop \<open>l mod 4\<close> in every face of the prism for each of its loops
  \<open>l\<close>, and an entry of \<^verbatim>\<open>bpy.data.materials\<close> at its material index.
\<close>

definition face_ok :: "uv list \<Rightarrow> material list \<Rightarrow> face \<Rightarrow> bool" where
  "face_ok uvs mats f =
     (3 \<le> length (f_verts f) \<and>
      list_all (\<lambda>l. l < length uvs \<and> l mod 4 < length (f_verts f)) (f_loops f) \<and>
      f_material_index f < length mats)"

text \<open>
  The faces the loop of the script runs over, \<open>oBM.faces\<close>, for the source object
  \<open>ob\<close> of the scene: the faces of its mesh, in world coordinates.
\<close>

definition source_faces :: "scene \<Rightarrow> nat \<Rightarrow> face list" where
  "source_faces s ob =
     bmesh_transform (matrix_world (objects s ! ob)) (from_mesh (meshes s ! data (objects s ! ob)))"

text \<open>
  The objects and the meshes a run of the script leaves; none when it ended in an
  exception.
\<close>

definition objects_of :: "error + scene \<Rightarrow> object list" where
  "objects_of r = (case r of Inl e \<Rightarrow> [] | Inr s \<Rightarrow> objects s)"

definition meshes_of :: "error + scene \<Rightarrow> mesh list" where
  "meshes_of r = (case r of Inl e \<Rightarrow> [] | Inr s \<Rightarrow> meshes s)"

section \<open>Example scenes\<close>

definition obj :: "string \<Rightarrow> vec3 \<Rightarrow> bool \<Rightarrow> nat \<Rightarrow> object" where
  "obj n l sel d =
     \<lparr>name = n, location = l, matrix_world = (\<lambda>p. vadd p l), select_get = sel, data = d,
      active_material_index = 0\<rparr>"

definition empty_mesh :: mesh where
  "empty_mesh = \<lparr>vertices = [], polygons = [], uv_layers_active = None, mesh_materials = []\<rparr>"

text \<open>Two rocks and a tree; the second rock and the tree are selected, the tree is active.\<close>

definition crowd :: scene where
  "crowd =
     \<lparr>objects = [obj ''rock1'' (0, 0, 0) False 0, obj ''rock2'' (4, 0, 0) True 1,
                 obj ''tree'' (0, 3, 0) True 2],
      active = Some 2,
      meshes = [empty_mesh, empty_mesh, empty_mesh],
      materials = [''stone'']\<rparr>"

text \<open>
  A scene with one object, named as the script expects, at the origin of the world, and
  two materials. Its mesh is given; the mesh has the second material in its only slot.
\<close>

definition scene_of :: "mesh \<Rightarrow> scene" where
  "scene_of me =
     \<lparr>objects = [obj ''Cube'' (0, 0, 0) False 0], active = Some 0, meshes = [me],
      materials = [''A'', ''B'']\<rparr>"

text \<open>A square face at height \<open>z\<close>, centred on the vertical axis.\<close>

definition plane :: "real \<Rightarrow> uv list option \<Rightarrow> mesh" where
  "plane z uvs =
     \<lparr>vertices = [(- 1, - 1, z), (1, - 1, z), (1, 1, z), (- 1, 1, z)],
      polygons = [\<lparr>p_vertices = [0, 1, 2, 3], material_index = 0\<rparr>],
      uv_layers_active = uvs,
      mesh_materials = [Some ''B'']\<rparr>"

definition square_uvs :: "uv list" where
  "square_uvs = [(0, 0), (1, 0), (1, 1), (0, 1)]"

text \<open>A single triangle at height 1.\<close>

definition triangle :: mesh where
  "triangle =
     \<lparr>vertices = [(0, 0, 1), (1, 0, 1), (0, 1, 1)],
      polygons = [\<lparr>p_vertices = [0, 1, 2], material_index = 0\<rparr>],
      uv_layers_active = Some [(0, 0), (1, 0), (0, 1)],
      mesh_materials = [Some ''B'']\<rparr>"

text \<open>An operator that succeeds and changes nothing.\<close>

definition op_skip :: operator where
  "op_skip s = Inr s"

section \<open>Properties of crowdControl.py\<close>

subsection \<open>Selection by name prefix\<close>


lemma select_set_fields [simp]:
  "active (select_set i b s) = active s"
  "meshes (select_set i b s) = meshes s"
  "materials (select_set i b s) = materials s"
  "length (objects (select_set i b s)) = length (objects s)"
  by (simp_all add: select_set_def)

lemma fold_select_set_fields:
  "active (fold (\<lambda>i. select_set i b) is s) = active s \<and>
   meshes (fold (\<lambda>i. select_set i b) is s) = meshes s \<and>
   materials (fold (\<lambda>i. select_set i b) is s) = materials s \<and>
   length (objects (fold (\<lambda>i. select_set i b) is s)) = length (objects s)"
  by (induction "is" arbitrary: s) simp_all

lemma fold_select_set_nth:
  "j < length (objects s) \<Longrightarrow>
   objects (fold (\<lambda>i. select_set i b) is s) ! j =
     (if j \<in> set is then (objects s ! j)\<lparr>select_get := b\<rparr> else objects s ! j)"
proof (induction "is" arbitrary: s)
  case Nil
  then show ?case by simp
next
  case (Cons i "is")
  have len: "j < length (objects (select_set i b s))" using Cons.prems by simp
  show ?case
    using Cons.IH [OF len] Cons.prems
    by (cases "i = j") (auto simp: select_set_def nth_list_update)
qed

lemma set_getObjList:
  "set (getObjList p s) = {i. i < length (objects s) \<and> startswith (name (objects s ! i)) p}"
  by (auto simp: getObjList_def)

lemma objects_fold_select:
  "objects (fold (\<lambda>i. select_set i b) (getObjList p s) s) =
     map (\<lambda>ob. if startswith (name ob) p then ob\<lparr>select_get := b\<rparr> else ob) (objects s)"
  by (rule nth_equalityI)
     (simp_all add: fold_select_set_fields fold_select_set_nth set_getObjList)

lemma select_objects:
  "objects (select p s) =
     map (\<lambda>ob. if startswith (name ob) p then ob\<lparr>select_get := True\<rparr> else ob) (objects s)"
  by (simp add: select_def objects_fold_select)


lemma select_rest:
  "active (select p s) = active s \<and> meshes (select p s) = meshes s \<and>
   materials (select p s) = materials s"
  by (simp add: select_def fold_select_set_fields)





subsection \<open>Moving by a vector\<close>

lemma move_objects:
  "objects (move p v s) =
     map (\<lambda>ob. if startswith (name ob) p then translate_object v (ob\<lparr>select_get := True\<rparr>)
                else ob\<lparr>select_get := False\<rparr>) (objects s)"
  by (simp add: move_def translate_def select_objects select_all_DESELECT_def comp_def)

lemma move_rest:
  "active (move p v s) = active s \<and> meshes (move p v s) = meshes s \<and>
   materials (move p v s) = materials s"
  by (simp add: move_def translate_def select_rest select_all_DESELECT_def)

lemma vadd_assoc: "vadd (vadd a b) c = vadd a (vadd b c)"
  by (cases a; cases b; cases c) simp

lemma scene_eqI:
  fixes s t :: scene
  shows "objects s = objects t \<Longrightarrow> active s = active t \<Longrightarrow> meshes s = meshes t \<Longrightarrow>
    materials s = materials t \<Longrightarrow> s = t"
  by simp

text \<open>
  Claim C6. For every prefix and vectors \<open>v1\<close> and \<open>v2\<close>, moving by \<open>v1\<close> and then by
  \<open>v2\<close> leaves the scene, and so every matched object's location, as one move by
  \<open>v1 + v2\<close> does. The coordinates are real numbers here, where the sums are exact; the
  tolerance of the claim is the rounding of the host's floating-point sums. The second call
  matches the same objects as the first, since a move changes no name.
\<close>

theorem move_twice_is_move_by_sum:
  "move p v2 (move p v1 s) = move p (vadd v1 v2) s"
proof (rule scene_eqI)
  show "objects (move p v2 (move p v1 s)) = objects (move p (vadd v1 v2) s)"
    by (simp add: move_objects comp_def translate_object_def vadd_assoc)
qed (simp_all add: move_rest)

theorem move_twice_is_move_by_sum_witness:
  "map location (objects (move ''rock'' (0, 1, 0) (move ''rock'' (1, 0, 0) crowd))) =
     [(1, 1, 0), (5, 1, 0), (0, 3, 0)]"
  using move_twice_is_move_by_sum [of "''rock''" "(0, 1, 0)" "(1, 0, 0)" crowd]
  by (simp add: move_objects translate_object_def crowd_def obj_def)



subsection \<open>Moving towards a target\<close>




lemma getObjList_select_all_DESELECT:
  "getObjList p (select_all_DESELECT s) = getObjList p s"
  by (auto simp: getObjList_def select_all_DESELECT_def intro!: filter_cong)



lemma distance_sym: "distance a b = distance b a"
proof (cases a; cases b)
  fix x y z u v w assume ab: "a = (x, y, z)" "b = (u, v, w)"
  have "(x - u) * (x - u) + (y - v) * (y - v) + (z - w) * (z - w)
      = (u - x) * (u - x) + (v - y) * (v - y) + (w - z) * (w - z)"
    by (simp add: algebra_simps)
  then show ?thesis by (simp add: ab distance_def)
qed


lemma towards_distance_zero:
  assumes "distance loc t = 0"
  shows "vadd loc (vmul (normalize (vsub t loc)) val) = loc"
proof -
  have "vlength (vsub t loc) = 0"
    using assms distance_sym [of loc t] by (simp add: distance_def)
  then show ?thesis by (cases loc) (simp add: normalize_def)
qed

lemma distance_x [simp]: "distance (a, b, c) (x, b, c) = \<bar>a - x\<bar>"
  by (simp add: distance_def)





subsection \<open>The active object\<close>

lemma enable_crowd:
  "enable_rigidbody (\<lambda>ty. op_skip) ''rock'' ''ACTIVE'' crowd = Inr (crowd\<lparr>active := None\<rparr>)"
  by (simp add: enable_rigidbody_def getObjList_def crowd_def obj_def op_skip_def upt_conv_Cons)

lemma disable_crowd:
  "disable_rigidbody op_skip ''rock'' crowd = Inr (crowd\<lparr>active := None\<rparr>)"
  by (simp add: disable_rigidbody_def getObjList_def crowd_def obj_def op_skip_def upt_conv_Cons)

lemma assign_crowd:
  "\<exists>s'. assign_material op_skip ''rock'' ''stone'' crowd = Inr s'"
  by (simp add: assign_material_def getObjList_def crowd_def obj_def op_skip_def upt_conv_Cons
       material_slots_def materials_append_def materials_get_def empty_mesh_def Let_def)

text \<open>
  Claim C9. Whenever \<^verbatim>\<open>enable_rigidbody\<close>, \<^verbatim>\<open>disable_rigidbody\<close> or
  \<^verbatim>\<open>assign_material\<close> returns, the active object of the view layer is None, whichever
  object was active before and whatever the host's operators did to the scene: the last
  statement of each procedure sets it.
\<close>

theorem active_is_None_afterwards:
  "(enable_rigidbody object_add p ty s = Inr s' \<longrightarrow> active s' = None) \<and>
   (disable_rigidbody object_remove p s = Inr s' \<longrightarrow> active s' = None) \<and>
   (assign_material material_slot_remove p m s = Inr s' \<longrightarrow> active s' = None)"
  by (auto simp: enable_rigidbody_def disable_rigidbody_def assign_material_def split: sum.splits)

theorem active_is_None_afterwards_witness:
  "active crowd = Some 2 \<and>
   (case enable_rigidbody (\<lambda>ty. op_skip) ''rock'' ''ACTIVE'' crowd of
      Inl e \<Rightarrow> False | Inr s' \<Rightarrow> active s' = None) \<and>
   (case disable_rigidbody op_skip ''rock'' crowd of
      Inl e \<Rightarrow> False | Inr s' \<Rightarrow> active s' = None) \<and>
   (case assign_material op_skip ''rock'' ''stone'' crowd of
      Inl e \<Rightarrow> False | Inr s' \<Rightarrow> active s' = None)"
proof -
  obtain s3 where a: "assign_material op_skip ''rock'' ''stone'' crowd = Inr s3"
    using assign_crowd by blast
  have "active (crowd\<lparr>active := None\<rparr>) = None \<and> active s3 = None"
    using active_is_None_afterwards
      [of "\<lambda>ty. op_skip" "''rock''" "''ACTIVE''" crowd "crowd\<lparr>active := None\<rparr>"]
      active_is_None_afterwards
      [of "\<lambda>ty. op_skip" "''rock''" "''ACTIVE''" crowd s3 op_skip op_skip "''stone''"]
      enable_crowd a
    by blast
  then show ?thesis
    by (simp add: enable_crowd disable_crowd a) (simp add: crowd_def)
qed

section \<open>Properties of shedScaleSkin.py\<close>

subsection \<open>The prism of a face\<close>

lemma map_nth_append_upt: "map (\<lambda>i. (xs @ ys) ! i) [0..<length xs] = xs"
  by (rule nth_equalityI) (simp_all add: nth_append)

lemma translate_second_half:
  "map (\<lambda>i. if i \<in> set [length xs..<2 * length xs] then vadd ((xs @ xs) ! i) v else (xs @ xs) ! i)
       [0..<length (xs @ xs)] = xs @ map (\<lambda>p. vadd p v) xs"
  by (rule nth_equalityI) (auto simp: nth_append)

lemma faces_new_Inr:
  "3 \<le> length vs \<Longrightarrow>
   faces_new \<lparr>bm_verts = vs, bm_faces = []\<rparr> =
     Inr (\<lparr>bm_verts = vs, bm_faces = [[0..<length vs]]\<rparr>, [0..<length vs])"
  by (simp add: faces_new_def)

lemma extrude_face_region_eq:
  "extrude_face_region \<lparr>bm_verts = vs, bm_faces = fs\<rparr> =
     (\<lparr>bm_verts = vs @ vs,
       bm_faces = fs @ [length vs..<2 * length vs] #
         map (\<lambda>i. [i, (i + 1) mod length vs, length vs + (i + 1) mod length vs, length vs + i])
           [0..<length vs]\<rparr>,
      [length vs..<2 * length vs])"
  by (simp add: extrude_face_region_def Let_def)

lemma bmesh_translate_eq:
  "bmesh_translate v [length vs..<2 * length vs] \<lparr>bm_verts = vs @ vs, bm_faces = fs\<rparr> =
     \<lparr>bm_verts = vs @ map (\<lambda>p. vadd p v) vs, bm_faces = fs\<rparr>"
  using translate_second_half [of vs v] by (simp add: bmesh_translate_def cong: if_cong)

lemma calc_center_median_eq:
  "calc_center_median \<lparr>bm_verts = vs @ ws, bm_faces = fs\<rparr> [0..<length vs] = center_median vs"
  by (simp add: calc_center_median_def map_nth_append_upt)

lemma scale_bmesh_Inr:
  assumes "3 \<le> length (f_verts f)"
  shows "scale_bmesh oLoc f =
    Inr (\<lparr>bm_verts = prism_verts oLoc f,
          bm_faces = [0..<length (f_verts f)] # [length (f_verts f)..<2 * length (f_verts f)] #
             map (\<lambda>i. [i, (i + 1) mod length (f_verts f),
                        length (f_verts f) + (i + 1) mod length (f_verts f), length (f_verts f) + i])
               [0..<length (f_verts f)]\<rparr>,
         scale_direction oLoc f)"
  by (simp only: scale_bmesh_def faces_new_Inr [OF assms] extrude_face_region_eq sum.case
        prod.case Let_def calc_center_median_eq bmesh_translate_eq prism_verts_def
        scale_direction_def append.simps)

lemma scale_bmesh_Inl:
  assumes "length (f_verts f) < 3"
  shows "scale_bmesh oLoc f = Inl TypeError"
  using assms by (simp add: scale_bmesh_def faces_new_def)

lemma set_loop_uv_Inr:
  "list_all (\<lambda>sFace. k < length sFace) uvLayer \<Longrightarrow>
   \<exists>uvLayer'. set_loop_uv k u uvLayer = Inr uvLayer' \<and> map length uvLayer' = map length uvLayer"
  by (induction uvLayer) auto

lemma set_loop_uv_Inl:
  "\<not> list_all (\<lambda>sFace. k < length sFace) uvLayer \<Longrightarrow> set_loop_uv k u uvLayer = Inl IndexError"
  by (induction uvLayer) (auto split: sum.splits)

lemma copy_uvs_Inr:
  "list_all (\<lambda>l. l < length d \<and> list_all (\<lambda>sFace. l mod 4 < length sFace) uvLayer) loops \<Longrightarrow>
   \<exists>uvLayer'. copy_uvs (Some d) loops uvLayer = Inr uvLayer' \<and> map length uvLayer' = map length uvLayer"
proof (induction loops arbitrary: uvLayer)
  case Nil
  then show ?case by simp
next
  case (Cons l loops)
  then have l: "l < length d" and f: "list_all (\<lambda>sFace. l mod 4 < length sFace) uvLayer"
    and rest: "list_all (\<lambda>l. l < length d \<and> list_all (\<lambda>sFace. l mod 4 < length sFace) uvLayer) loops"
    by simp_all
  obtain uv1 where s: "set_loop_uv (l mod 4) (d ! l) uvLayer = Inr uv1"
    and len: "map length uv1 = map length uvLayer"
    using set_loop_uv_Inr [OF f] by blast
  have same: "list_all (\<lambda>sFace. k < length sFace) uv1 = list_all (\<lambda>sFace. k < length sFace) uvLayer" for k
  proof -
    have "list_all (\<lambda>sFace. k < length sFace) uv1 = list_all (\<lambda>n. k < n) (map length uv1)"
      by (simp add: list_all_iff)
    also have "\<dots> = list_all (\<lambda>n. k < n) (map length uvLayer)" by (simp add: len)
    also have "\<dots> = list_all (\<lambda>sFace. k < length sFace) uvLayer" by (simp add: list_all_iff)
    finally show ?thesis .
  qed
  have rest1: "list_all (\<lambda>l. l < length d \<and> list_all (\<lambda>sFace. l mod 4 < length sFace) uv1) loops"
    using rest by (simp add: same)
  from Cons.IH [OF rest1] obtain uv2 where "copy_uvs (Some d) loops uv1 = Inr uv2"
    and "map length uv2 = map length uv1" by blast
  then show ?case using l s len by simp
qed


subsection \<open>The new object\<close>

lemma selected_only_last:
  assumes "\<forall>ob \<in> set xs. \<not> select_get ob" and "select_get x"
  shows "filter (\<lambda>i. select_get ((xs @ [x]) ! i)) [0..<length (xs @ [x])] = [length xs]"
proof -
  have "filter (\<lambda>i. select_get ((xs @ [x]) ! i)) [0..<length xs] = []"
    using assms(1) by (auto simp: filter_empty_conv nth_append)
  then show ?thesis using assms(2) by simp
qed

lemma select_last:
  "objects (select_set (length (objects s)) True (select_all_DESELECT (s\<lparr>objects := objects s @ [x]\<rparr>)))
     = map (\<lambda>ob. ob\<lparr>select_get := False\<rparr>) (objects s) @ [x\<lparr>select_get := True\<rparr>]"
  by (simp add: select_set_def select_all_DESELECT_def list_update_append nth_append)

lemma origin_set_last:
  assumes "objects s = xs @ [x]" and "meshes s = ms @ [me]"
    and "\<forall>ob \<in> set xs. \<not> select_get ob" and "select_get x" and "data x = length ms"
  shows "origin_set s =
     s\<lparr>objects := xs @ [x\<lparr>location := matrix_world x (center_median (vertices me)),
                          matrix_world := (\<lambda>p. matrix_world x (vadd p (center_median (vertices me))))\<rparr>],
       meshes := ms @ [me\<lparr>vertices := map (\<lambda>v. vsub v (center_median (vertices me))) (vertices me)\<rparr>]\<rparr>"
proof -
  have sel: "filter (\<lambda>i. select_get (objects s ! i)) [0..<length (objects s)] = [length xs]"
    using selected_only_last [OF assms(3,4)] by (simp add: assms(1))
  show ?thesis
    unfolding origin_set_def
    apply (simp only: sel fold_simps id_apply)
    apply (simp add: origin_set_object_def assms Let_def)
    done
qed

lemma translate_last:
  assumes "objects s = xs @ [x]" and "\<forall>ob \<in> set xs. \<not> select_get ob" and "select_get x"
  shows "translate v s = s\<lparr>objects := xs @ [translate_object v x]\<rparr>"
proof -
  have "map (\<lambda>ob. if select_get ob then translate_object v ob else ob) xs = xs"
    using assms(2) by (intro map_idI) simp
  then show ?thesis using assms(1,3) by (simp add: translate_def)
qed

lemma materials_append_last:
  assumes "objects s = xs @ [x]" and "meshes s = ms @ [me]" and "data x = length ms"
  shows "materials_append (length xs) m s =
     Inr (s\<lparr>meshes := ms @ [me\<lparr>mesh_materials := mesh_materials me @ [m]\<rparr>]\<rparr>)"
  using assms by (simp add: materials_append_def Let_def)

lemma add_scale_Inr:
  assumes "f_material_index f < length (materials s)"
  shows "add_scale sBM uvLayer u k f s =
    Inr (s\<lparr>objects := map (\<lambda>ob. ob\<lparr>select_get := False\<rparr>) (objects s) @
              [\<lparr>name = ''scale'' @ originalObjectName @ str k,
                location = vadd (center_median (bm_verts sBM)) (vmul u DISPLACEMENT_DISTANCE),
                matrix_world = (\<lambda>p. vadd (vadd p (center_median (bm_verts sBM))) (vmul u DISPLACEMENT_DISTANCE)),
                select_get = True, data = length (meshes s), active_material_index = 0\<rparr>],
            meshes := meshes s @
              [(to_mesh sBM uvLayer)\<lparr>vertices := map (\<lambda>v. vsub v (center_median (bm_verts sBM))) (bm_verts sBM),
                  mesh_materials := [Some (materials s ! f_material_index f)]\<rparr>]\<rparr>)"
proof -
  define x0 where "x0 = objects_new (''scale'' @ originalObjectName @ str k) (length (meshes s))"
  define m0 where "m0 = to_mesh sBM uvLayer"
  define t where "t = vmul u DISPLACEMENT_DISTANCE"
  define c where "c = center_median (vertices m0)"
  define s3 where "s3 = select_set (length (objects s)) True
     (select_all_DESELECT (s\<lparr>meshes := meshes s @ [m0], objects := objects s @ [x0]\<rparr>))"
  define xs where "xs = map (\<lambda>ob. ob\<lparr>select_get := False\<rparr>) (objects s)"
  define x1 where "x1 = x0\<lparr>select_get := True\<rparr>"
  define x2 where "x2 = x1\<lparr>location := matrix_world x1 c, matrix_world := (\<lambda>p. matrix_world x1 (vadd p c))\<rparr>"
  define m1 where "m1 = m0\<lparr>vertices := map (\<lambda>v. vsub v c) (vertices m0)\<rparr>"
  have unfold: "add_scale sBM uvLayer u k f s =
      (if f_material_index f < length (materials (translate t (origin_set s3)))
       then materials_append (length (objects s))
              (Some (materials (translate t (origin_set s3)) ! f_material_index f))
              (translate t (origin_set s3))
       else Inl IndexError)"
    by (simp add: add_scale_def Let_def s3_def x0_def m0_def t_def)
  have o3: "objects s3 = xs @ [x1]"
    using select_last [of "s\<lparr>meshes := meshes s @ [m0]\<rparr>" x0]
    by (simp add: s3_def xs_def x1_def)
  have m3: "meshes s3 = meshes s @ [m0]"
    by (simp add: s3_def select_all_DESELECT_def)
  have r3: "active s3 = active s" "materials s3 = materials s"
    by (simp_all add: s3_def select_all_DESELECT_def)
  have nsel: "\<forall>ob \<in> set xs. \<not> select_get ob" by (auto simp: xs_def)
  have sel1: "select_get x1" by (simp add: x1_def)
  have d1: "data x1 = length (meshes s)" by (simp add: x1_def x0_def objects_new_def)
  have os: "origin_set s3 = s3\<lparr>objects := xs @ [x2], meshes := meshes s @ [m1]\<rparr>"
    using origin_set_last [OF o3 m3 nsel sel1 d1] by (simp add: x2_def m1_def c_def)
  define s4 where "s4 = s3\<lparr>objects := xs @ [x2], meshes := meshes s @ [m1]\<rparr>"
  have o4: "objects s4 = xs @ [x2]" by (simp add: s4_def)
  have sel2: "select_get x2" by (simp add: x2_def x1_def)
  have tr: "translate t s4 = s4\<lparr>objects := xs @ [translate_object t x2]\<rparr>"
    using translate_last [OF o4 nsel sel2] .
  define s5 where "s5 = s4\<lparr>objects := xs @ [translate_object t x2]\<rparr>"
  have o5: "objects s5 = xs @ [translate_object t x2]" by (simp add: s5_def)
  have m5: "meshes s5 = meshes s @ [m1]" by (simp add: s5_def s4_def)
  have r5: "active s5 = active s" "materials s5 = materials s"
    by (simp_all add: s5_def s4_def r3)
  have d5: "data (translate_object t x2) = length (meshes s)"
    by (simp add: translate_object_def x2_def d1)
  have lx: "length xs = length (objects s)" by (simp add: xs_def)
  have ma: "materials_append (length (objects s)) m s5 =
      Inr (s5\<lparr>meshes := meshes s @ [m1\<lparr>mesh_materials := mesh_materials m1 @ [m]\<rparr>]\<rparr>)" for m
    using materials_append_last [OF o5 m5 d5, of m] by (simp add: lx)
  have "translate t (origin_set s3) = translate t s4"
    by (simp only: os s4_def)
  then have s45: "translate t (origin_set s3) = s5"
    by (simp only: tr s5_def)
  have res: "add_scale sBM uvLayer u k f s =
      Inr (s5\<lparr>meshes := meshes s @ [m1\<lparr>mesh_materials := mesh_materials m1 @ [Some (materials s ! f_material_index f)]\<rparr>]\<rparr>)"
    by (simp only: unfold s45 r5 assms if_True ma)
  have xfinal: "translate_object t x2 = \<lparr>name = ''scale'' @ originalObjectName @ str k,
                location = vadd c t,
                matrix_world = (\<lambda>p. vadd (vadd p c) t),
                select_get = True, data = length (meshes s), active_material_index = 0\<rparr>"
    by (simp add: translate_object_def x2_def x1_def x0_def objects_new_def)
  have cfinal: "c = center_median (bm_verts sBM)" by (simp add: c_def m0_def to_mesh_def)
  have mfinal: "m1\<lparr>mesh_materials := mesh_materials m1 @ [m]\<rparr> =
      (to_mesh sBM uvLayer)\<lparr>vertices := map (\<lambda>v. vsub v c) (bm_verts sBM), mesh_materials := [m]\<rparr>" for m
    by (simp add: m1_def m0_def to_mesh_def)
  show ?thesis
    unfolding res
    apply (rule arg_cong [where f = Inr])
    apply (rule scene_eqI)
       apply (simp_all add: o5 r5 xfinal mfinal)
     apply (simp_all add: xs_def cfinal t_def)
    done
qed

subsection \<open>The body of the loop, and the loop\<close>

lemma uv_new_loops:
  assumes "3 \<le> n" and "k < n" and "k < 4"
  shows "list_all (\<lambda>sFace. k < length sFace)
     (uv_new \<lparr>bm_verts = vs,
       bm_faces = [0..<n] # [n..<2 * n] # map (\<lambda>i. [i, (i + 1) mod n, n + (i + 1) mod n, n + i]) [0..<n]\<rparr>)"
  using assms by (simp add: uv_new_def list_all_iff)

lemma scale_of_face_Inr:
  assumes ok: "face_ok uvs (materials s) f"
    and uv: "uv_layers_active (meshes s ! oM) = Some uvs"
  shows "\<exists>nm. scale_of_face oM oLoc k f s =
      Inr (s\<lparr>objects := map (\<lambda>ob. ob\<lparr>select_get := False\<rparr>) (objects s) @
                 [(scale_object oLoc k f (length (meshes s)))\<lparr>select_get := True\<rparr>],
             meshes := meshes s @ [nm]\<rparr>) \<and>
      mesh_materials nm = [Some (materials s ! f_material_index f)]"
proof -
  let ?n = "length (f_verts f)"
  let ?sBM = "\<lparr>bm_verts = prism_verts oLoc f,
          bm_faces = [0..<?n] # [?n..<2 * ?n] #
             map (\<lambda>i. [i, (i + 1) mod ?n, ?n + (i + 1) mod ?n, ?n + i]) [0..<?n]\<rparr>"
  have n3: "3 \<le> ?n" and mat: "f_material_index f < length (materials s)"
    and loops: "list_all (\<lambda>l. l < length uvs \<and> l mod 4 < ?n) (f_loops f)"
    using ok by (simp_all add: face_ok_def)
  have sb: "scale_bmesh oLoc f = Inr (?sBM, scale_direction oLoc f)"
    using scale_bmesh_Inr [OF n3] .
  have "\<forall>l \<in> set (f_loops f). l < length uvs \<and> list_all (\<lambda>sFace. l mod 4 < length sFace) (uv_new ?sBM)"
  proof
    fix l assume "l \<in> set (f_loops f)"
    with loops have a: "l < length uvs" and b: "l mod 4 < ?n" by (simp_all add: list_all_iff)
    have c: "l mod 4 < 4" by simp
    show "l < length uvs \<and> list_all (\<lambda>sFace. l mod 4 < length sFace) (uv_new ?sBM)"
      using a uv_new_loops [OF n3 b c] by blast
  qed
  then have "list_all (\<lambda>l. l < length uvs \<and> list_all (\<lambda>sFace. l mod 4 < length sFace) (uv_new ?sBM)) (f_loops f)"
    unfolding list_all_iff [of _ "f_loops f"] .
  from copy_uvs_Inr [OF this] obtain uvLayer
    where cu: "copy_uvs (Some uvs) (f_loops f) (uv_new ?sBM) = Inr uvLayer" by blast
  have eq: "scale_of_face oM oLoc k f s = add_scale ?sBM uvLayer (scale_direction oLoc f) k f s"
    by (simp only: scale_of_face_def sb uv cu sum.case prod.case)
  have ob: "\<lparr>name = ''scale'' @ originalObjectName @ str k,
                location = vadd (center_median (bm_verts ?sBM)) (vmul (scale_direction oLoc f) DISPLACEMENT_DISTANCE),
                matrix_world = (\<lambda>p. vadd (vadd p (center_median (bm_verts ?sBM))) (vmul (scale_direction oLoc f) DISPLACEMENT_DISTANCE)),
                select_get = True, data = length (meshes s), active_material_index = 0\<rparr>
       = (scale_object oLoc k f (length (meshes s)))\<lparr>select_get := True\<rparr>"
    by (simp add: scale_object_def scale_location_def)
  show ?thesis
    unfolding eq add_scale_Inr [OF mat] ob
    by (rule exI, rule conjI, rule refl) simp
qed

lemma map_upt_Suc_shift: "map g [0..<Suc n] = g 0 # map (\<lambda>j. g (Suc j)) [0..<n]"
  by (simp add: upt_conv_Cons map_Suc_upt [symmetric] del: upt_Suc)

lemma scale_loop_Inr:
  assumes "list_all (face_ok uvs (materials s)) fs"
    and "uv_layers_active (meshes s ! oM) = Some uvs" and "oM < length (meshes s)"
  shows "\<exists>s' ms. scale_loop oM oLoc k fs s = Inr s' \<and>
     map (\<lambda>ob. ob\<lparr>select_get := False\<rparr>) (objects s') =
       map (\<lambda>ob. ob\<lparr>select_get := False\<rparr>) (objects s) @
       map (\<lambda>j. scale_object oLoc (k + j) (fs ! j) (length (meshes s) + j)) [0..<length fs] \<and>
     meshes s' = meshes s @ ms \<and>
     map mesh_materials ms = map (\<lambda>f. [Some (materials s ! f_material_index f)]) fs \<and>
     active s' = active s \<and> materials s' = materials s"
  using assms
proof (induction fs arbitrary: s k)
  case Nil
  then show ?case by simp
next
  case (Cons f fs)
  have okf: "face_ok uvs (materials s) f" and okfs: "list_all (face_ok uvs (materials s)) fs"
    using Cons.prems(1) by simp_all
  obtain nm where step: "scale_of_face oM oLoc k f s =
      Inr (s\<lparr>objects := map (\<lambda>ob. ob\<lparr>select_get := False\<rparr>) (objects s) @
                 [(scale_object oLoc k f (length (meshes s)))\<lparr>select_get := True\<rparr>],
             meshes := meshes s @ [nm]\<rparr>)"
    and nm: "mesh_materials nm = [Some (materials s ! f_material_index f)]"
    using scale_of_face_Inr [OF okf Cons.prems(2)] by blast
  define s1 where "s1 = s\<lparr>objects := map (\<lambda>ob. ob\<lparr>select_get := False\<rparr>) (objects s) @
                 [(scale_object oLoc k f (length (meshes s)))\<lparr>select_get := True\<rparr>],
             meshes := meshes s @ [nm]\<rparr>"
  have mats1: "materials s1 = materials s" and act1: "active s1 = active s"
    and m1: "meshes s1 = meshes s @ [nm]"
    and o1: "objects s1 = map (\<lambda>ob. ob\<lparr>select_get := False\<rparr>) (objects s) @
                 [(scale_object oLoc k f (length (meshes s)))\<lparr>select_get := True\<rparr>]"
    by (simp_all add: s1_def)
  have a1: "list_all (face_ok uvs (materials s1)) fs" using okfs by (simp add: mats1)
  have a2: "uv_layers_active (meshes s1 ! oM) = Some uvs"
    using Cons.prems(2,3) by (simp add: m1 nth_append)
  have a3: "oM < length (meshes s1)" using Cons.prems(3) by (simp add: m1)
  from Cons.IH [OF a1 a2 a3, of "k + 1"] obtain s' ms where
    r: "scale_loop oM oLoc (k + 1) fs s1 = Inr s'"
    and ro: "map (\<lambda>ob. ob\<lparr>select_get := False\<rparr>) (objects s') =
       map (\<lambda>ob. ob\<lparr>select_get := False\<rparr>) (objects s1) @
       map (\<lambda>j. scale_object oLoc (k + 1 + j) (fs ! j) (length (meshes s1) + j)) [0..<length fs]"
    and rm: "meshes s' = meshes s1 @ ms"
    and rmm: "map mesh_materials ms = map (\<lambda>f. [Some (materials s1 ! f_material_index f)]) fs"
    and ra: "active s' = active s1" and rmat: "materials s' = materials s1"
    by blast
  have loop: "scale_loop oM oLoc k (f # fs) s = Inr s'"
    using r by (simp add: step s1_def [symmetric])
  have so: "(scale_object oLoc k f (length (meshes s)))\<lparr>select_get := False\<rparr>
      = scale_object oLoc k f (length (meshes s))"
    by (simp add: scale_object_def)
  have objs: "map (\<lambda>ob. ob\<lparr>select_get := False\<rparr>) (objects s') =
       map (\<lambda>ob. ob\<lparr>select_get := False\<rparr>) (objects s) @
       map (\<lambda>j. scale_object oLoc (k + j) ((f # fs) ! j) (length (meshes s) + j)) [0..<length (f # fs)]"
    by (simp add: ro o1 m1 so map_upt_Suc_shift del: upt_Suc)
  have ms: "meshes s' = meshes s @ (nm # ms)" by (simp add: rm m1)
  have mm: "map mesh_materials (nm # ms) = map (\<lambda>f. [Some (materials s ! f_material_index f)]) (f # fs)"
    by (simp add: nm rmm mats1)
  have ra': "active s' = active s" and rmat': "materials s' = materials s"
    by (simp_all add: ra rmat act1 mats1)
  show ?case
    apply (rule exI [of _ s'])
    apply (rule exI [of _ "nm # ms"])
    apply (intro conjI)
         apply (rule loop)
        apply (rule objs)
       apply (rule ms)
      apply (rule mm)
     apply (rule ra')
    apply (rule rmat')
    done
qed

subsection \<open>The whole script\<close>

lemma objects_by_name_Inr:
  assumes "objects_by_name n s = Inr ob"
  shows "ob < length (objects s) \<and> name (objects s ! ob) = n"
proof -
  from assms obtain rest where
    "filter (\<lambda>i. name (objects s ! i) = n) [0..<length (objects s)] = ob # rest"
    by (auto simp: objects_by_name_def split: list.splits)
  then have "ob \<in> set (filter (\<lambda>i. name (objects s ! i) = n) [0..<length (objects s)])"
    by simp
  then show ?thesis by simp
qed

lemma objects_by_name_select_all_DESELECT:
  "objects_by_name n (select_all_DESELECT s) = objects_by_name n s"
proof -
  have "filter (\<lambda>i. name (objects (select_all_DESELECT s) ! i) = n) [0..<length (objects (select_all_DESELECT s))]
      = filter (\<lambda>i. name (objects s ! i) = n) [0..<length (objects s)]"
    by (auto simp: select_all_DESELECT_def intro!: filter_cong)
  then show ?thesis by (simp add: objects_by_name_def)
qed

lemma select_all_DESELECT_fields [simp]:
  "active (select_all_DESELECT s) = active s"
  "meshes (select_all_DESELECT s) = meshes s"
  "materials (select_all_DESELECT s) = materials s"
  "length (objects (select_all_DESELECT s)) = length (objects s)"
  by (simp_all add: select_all_DESELECT_def)

lemma shedScaleSkin_unfold:
  assumes ob: "objects_by_name originalObjectName s = Inr ob"
    and d: "data (objects s ! ob) < length (meshes s)"
  shows "shedScaleSkin s =
     (case scale_loop (data (objects s ! ob)) (location (objects s ! ob)) 0 (source_faces s ob)
             (select_set ob True (select_all_DESELECT s)) of
        Inl e \<Rightarrow> Inl e
      | Inr s2 \<Rightarrow> Inr (select_all_DESELECT s2))"
proof -
  have lt: "ob < length (objects s)" using objects_by_name_Inr [OF ob] by simp
  let ?s1 = "select_set ob True (select_all_DESELECT s)"
  have o1: "objects ?s1 ! ob = (objects s ! ob)\<lparr>select_get := True\<rparr>"
    using lt by (simp add: select_set_def select_all_DESELECT_def)
  show ?thesis
    unfolding shedScaleSkin_def Let_def objects_by_name_select_all_DESELECT ob sum.case
    by (simp add: o1 d source_faces_def)
qed

lemma deselect_select_set:
  "ob < length (objects s) \<Longrightarrow>
   map (\<lambda>ob. ob\<lparr>select_get := False\<rparr>) (objects (select_set ob b (select_all_DESELECT s)))
     = map (\<lambda>ob. ob\<lparr>select_get := False\<rparr>) (objects s)"
  by (rule nth_equalityI)
     (simp_all add: select_set_def select_all_DESELECT_def nth_list_update)

lemma shedScaleSkin_Inr:
  assumes ob: "objects_by_name originalObjectName s = Inr ob"
    and d: "data (objects s ! ob) < length (meshes s)"
    and uv: "uv_layers_active (meshes s ! data (objects s ! ob)) = Some uvs"
    and ok: "list_all (face_ok uvs (materials s)) (source_faces s ob)"
  shows "\<exists>s' ms. shedScaleSkin s = Inr s' \<and>
     objects s' = map (\<lambda>ob. ob\<lparr>select_get := False\<rparr>) (objects s) @
       map (\<lambda>j. scale_object (location (objects s ! ob)) j (source_faces s ob ! j) (length (meshes s) + j))
         [0..<length (source_faces s ob)] \<and>
     meshes s' = meshes s @ ms \<and>
     map mesh_materials ms = map (\<lambda>f. [Some (materials s ! f_material_index f)]) (source_faces s ob) \<and>
     active s' = active s \<and> materials s' = materials s"
proof -
  have lt: "ob < length (objects s)" using objects_by_name_Inr [OF ob] by simp
  define s1 where "s1 = select_set ob True (select_all_DESELECT s)"
  have m1: "meshes s1 = meshes s" and mat1: "materials s1 = materials s"
    and a1: "active s1 = active s"
    by (simp_all add: s1_def select_all_DESELECT_def)
  have h1: "list_all (face_ok uvs (materials s1)) (source_faces s ob)" using ok by (simp add: mat1)
  have h2: "uv_layers_active (meshes s1 ! data (objects s ! ob)) = Some uvs" using uv by (simp add: m1)
  have h3: "data (objects s ! ob) < length (meshes s1)" using d by (simp add: m1)
  from scale_loop_Inr [OF h1 h2 h3, of "location (objects s ! ob)" 0] obtain s2 ms where
    r: "scale_loop (data (objects s ! ob)) (location (objects s ! ob)) 0 (source_faces s ob) s1 = Inr s2"
    and ro: "map (\<lambda>ob. ob\<lparr>select_get := False\<rparr>) (objects s2) =
       map (\<lambda>ob. ob\<lparr>select_get := False\<rparr>) (objects s1) @
       map (\<lambda>j. scale_object (location (objects s ! ob)) (0 + j) (source_faces s ob ! j) (length (meshes s1) + j))
         [0..<length (source_faces s ob)]"
    and rm: "meshes s2 = meshes s1 @ ms"
    and rmm: "map mesh_materials ms = map (\<lambda>f. [Some (materials s1 ! f_material_index f)]) (source_faces s ob)"
    and ra: "active s2 = active s1" and rmat: "materials s2 = materials s1"
    by blast
  have res: "shedScaleSkin s = Inr (select_all_DESELECT s2)"
    by (simp add: shedScaleSkin_unfold [OF ob d] s1_def [symmetric] r)
  have objs: "objects (select_all_DESELECT s2) = map (\<lambda>ob. ob\<lparr>select_get := False\<rparr>) (objects s) @
       map (\<lambda>j. scale_object (location (objects s ! ob)) j (source_faces s ob ! j) (length (meshes s) + j))
         [0..<length (source_faces s ob)]"
  proof -
    have "map (\<lambda>ob. ob\<lparr>select_get := False\<rparr>) (objects s1) =
        map (\<lambda>ob. ob\<lparr>select_get := False\<rparr>) (objects s)"
      using deselect_select_set [OF lt, of True] by (simp only: s1_def)
    then show ?thesis using ro by (simp add: select_all_DESELECT_def m1)
  qed
  have ms: "meshes (select_all_DESELECT s2) = meshes s @ ms"
    by (simp add: select_all_DESELECT_def rm m1)
  have mm: "map mesh_materials ms = map (\<lambda>f. [Some (materials s ! f_material_index f)]) (source_faces s ob)"
    by (simp add: rmm mat1)
  have ra': "active (select_all_DESELECT s2) = active s"
    and rmat': "materials (select_all_DESELECT s2) = materials s"
    by (simp_all add: select_all_DESELECT_def ra rmat a1 mat1)
  show ?thesis
    apply (rule exI [of _ "select_all_DESELECT s2"])
    apply (rule exI [of _ ms])
    apply (intro conjI)
         apply (rule res)
        apply (rule objs)
       apply (rule ms)
      apply (rule mm)
     apply (rule ra')
    apply (rule rmat')
    done
qed





lemma cube_found: "objects_by_name originalObjectName (scene_of me) = Inr 0"
  by (simp add: objects_by_name_def scene_of_def obj_def originalObjectName_def)

lemma scene_of_objects: "objects (scene_of me) = [obj ''Cube'' (0, 0, 0) False 0]"
  by (simp add: scene_of_def)

lemma scene_of_meshes: "meshes (scene_of me) = [me]"
  by (simp add: scene_of_def)

lemma scene_of_materials: "materials (scene_of me) = [''A'', ''B'']"
  by (simp add: scene_of_def)

lemma scene_of_data: "data (objects (scene_of me) ! 0) = 0"
  by (simp add: scene_of_def obj_def)

lemma scene_of_location: "location (objects (scene_of me) ! 0) = (0, 0, 0)"
  by (simp add: scene_of_def obj_def)

lemmas scene_of_simps =
  scene_of_objects scene_of_meshes scene_of_materials obj_def




lemma source_faces_plane:
  "source_faces (scene_of (plane z uvs)) 0 =
     [\<lparr>f_verts = [(- 1, - 1, z), (1, - 1, z), (1, 1, z), (- 1, 1, z)], f_material_index = 0,
       f_loops = [0, 1, 2, 3]\<rparr>]"
  by (simp add: source_faces_def scene_of_simps from_mesh_def bmesh_transform_def plane_def
      upt_conv_Cons)

lemma source_faces_triangle:
  "source_faces (scene_of triangle) 0 =
     [\<lparr>f_verts = [(0, 0, 1), (1, 0, 1), (0, 1, 1)], f_material_index = 0, f_loops = [0, 1, 2]\<rparr>]"
  by (simp add: source_faces_def scene_of_simps from_mesh_def bmesh_transform_def triangle_def
      upt_conv_Cons)


subsection \<open>The material of a scale\<close>

text \<open>
  Claim C3 on the code. The script takes the material of a scale from
  \<^verbatim>\<open>bpy.data.materials\<close>, the list of all materials of the file, at the material
  index of the face; the index counts the material slots of the source object. Here the
  file has the materials A and B, the source object has B in its only slot and its face
  has index 0: the material of the face is B, and the mesh of the scale gets A.
\<close>

theorem scale_material_from_global_list:
  "mesh_materials (plane 1 (Some square_uvs)) ! material_index (polygons (plane 1 (Some square_uvs)) ! 0)
     = Some ''B'' \<and>
   map mesh_materials (meshes_of (shedScaleSkin (scene_of (plane 1 (Some square_uvs)))))
     = [[Some ''B''], [Some ''A'']] \<and>
   map data (objects_of (shedScaleSkin (scene_of (plane 1 (Some square_uvs))))) = [0, 1]"
proof -
  let ?me = "plane 1 (Some square_uvs)"
  let ?s = "scene_of ?me"
  have h1: "data (objects ?s ! 0) < length (meshes ?s)" by (simp add: scene_of_simps)
  have h2: "uv_layers_active (meshes ?s ! data (objects ?s ! 0)) = Some square_uvs"
    by (simp add: scene_of_simps plane_def)
  have h3: "list_all (face_ok square_uvs (materials ?s)) (source_faces ?s 0)"
    by (simp add: source_faces_plane face_ok_def scene_of_simps square_uvs_def)
  from shedScaleSkin_Inr [OF cube_found h1 h2 h3]
  obtain s' ms where r: "shedScaleSkin ?s = Inr s'"
    and ro: "objects s' = map (\<lambda>ob. ob\<lparr>select_get := False\<rparr>) (objects ?s) @
       map (\<lambda>j. scale_object (location (objects ?s ! 0)) j (source_faces ?s 0 ! j) (length (meshes ?s) + j))
         [0..<length (source_faces ?s 0)]"
    and rm: "meshes s' = meshes ?s @ ms"
    and rmm: "map mesh_materials ms = map (\<lambda>f. [Some (materials ?s ! f_material_index f)]) (source_faces ?s 0)"
    by (elim exE conjE)
  have a: "map mesh_materials (meshes s') = [[Some ''B''], [Some ''A'']]"
    unfolding rm map_append rmm source_faces_plane
    by (simp add: scene_of_simps plane_def)
  have b: "map data (objects s') = [0, 1]"
    unfolding ro source_faces_plane
    by (simp add: scene_of_simps scale_object_def)
  have c: "mesh_materials ?me ! material_index (polygons ?me ! 0) = Some ''B''"
    by (simp add: plane_def)
  show ?thesis using c by (simp add: r objects_of_def meshes_of_def a b)
qed


subsection \<open>Faces that are not quadrilaterals\<close>

lemma triangle_ok:
  "list_all (face_ok [(0, 0), (1, 0), (0, 1)] (materials (scene_of triangle)))
     (source_faces (scene_of triangle) 0)"
  by (simp add: source_faces_triangle face_ok_def scene_of_simps)

text \<open>
  Claim C7 on the code. The only place where the shape of a face matters is the index
  \<^verbatim>\<open>loopIndex % 4\<close> into the loops of each face of the prism. A triangle with the loops
  0, 1 and 2 never asks for a loop that a face of its prism lacks: the script ends
  without an exception and leaves a scale for the triangle.
\<close>

theorem triangle_raises_nothing:
  "map (length \<circ> p_vertices) (polygons triangle) = [3] \<and>
   map name (objects_of (shedScaleSkin (scene_of triangle))) = [''Cube'', ''scaleCube0'']"
proof -
  let ?s = "scene_of triangle"
  have h1: "data (objects ?s ! 0) < length (meshes ?s)" by (simp add: scene_of_simps)
  have h2: "uv_layers_active (meshes ?s ! data (objects ?s ! 0)) = Some [(0, 0), (1, 0), (0, 1)]"
    by (simp add: scene_of_simps triangle_def)
  from shedScaleSkin_Inr [OF cube_found h1 h2 triangle_ok]
  obtain s' ms where r: "shedScaleSkin ?s = Inr s'"
    and ro: "objects s' = map (\<lambda>ob. ob\<lparr>select_get := False\<rparr>) (objects ?s) @
       map (\<lambda>j. scale_object (location (objects ?s ! 0)) j (source_faces ?s 0 ! j) (length (meshes ?s) + j))
         [0..<length (source_faces ?s 0)]"
    by (elim exE conjE)
  have "map name (objects s') = [''Cube'', ''scaleCube0'']"
    unfolding ro source_faces_triangle
    by (simp add: scene_of_simps scale_object_def originalObjectName_def)
  then have "map name (objects_of (shedScaleSkin ?s)) = [''Cube'', ''scaleCube0'']"
    by (simp add: r objects_of_def)
  moreover have "map (length \<circ> p_vertices) (polygons triangle) = [3]"
    by (simp add: triangle_def)
  ultimately show ?thesis by (rule conjI [rotated])
qed

subsection \<open>Where a scale ends up\<close>


















section \<open>The selection around each operation\<close>











end
